theory Spec2Isabelle
  imports Main "HOL-Library.Sublist"
begin

section \<open>JavaScript strings\<close>

text \<open>
  The server is JavaScript. Strings are modelled as \<open>string\<close> (lists of 8-bit
  characters) and are taken to be ASCII: \<open>toLowerCase\<close> maps \<open>A\<close>..\<open>Z\<close> to
  \<open>a\<close>..\<open>z\<close> and leaves every other character alone, and \<open>trim\<close> strips the
  ASCII white space (tab, line feed, vertical tab, form feed, carriage return, space).
  A value that may be \<open>undefined\<close> (an environment variable, a missing body field)
  is a \<open>string option\<close>; it is falsy when it is \<open>undefined\<close> or the empty string.
\<close>

definition lower_char :: "char \<Rightarrow> char" where
  "lower_char c =
     (let n = (of_char c :: nat) in if 65 \<le> n \<and> n \<le> 90 then char_of (n + 32) else c)"

definition toLowerCase :: "string \<Rightarrow> string" where
  "toLowerCase s = map lower_char s"

definition is_ws :: "char \<Rightarrow> bool" where
  "is_ws c = (let n = (of_char c :: nat) in (9 \<le> n \<and> n \<le> 13) \<or> n = 32)"

definition trim :: "string \<Rightarrow> string" where
  "trim s = rev (dropWhile is_ws (rev (dropWhile is_ws s)))"

text \<open>\<open>s.includes(t)\<close>: \<open>t\<close> occurs in \<open>s\<close> as a contiguous substring.\<close>

definition str_includes :: "string \<Rightarrow> string \<Rightarrow> bool" where
  "str_includes s t = sublist t s"

text \<open>Truthiness of a string that may be \<open>undefined\<close>.\<close>

fun truthy :: "string option \<Rightarrow> bool" where
  "truthy None = False"
| "truthy (Some s) = (s \<noteq> [])"

text \<open>\<open>a || null\<close> on such a value: a falsy \<open>a\<close> becomes \<open>null\<close>.\<close>

definition or_null :: "string option \<Rightarrow> string option" where
  "or_null a = (if truthy a then a else None)"

section \<open>Cohort resolution\<close>

text \<open>
  \<open>COHORT_OPTIONS\<close> is read from the environment:
  \<open>october: process.env.COHORT_OCT_ID || null\<close>, and the same for January. The record
  holds the two environment variables; the accessors apply the \<open>|| null\<close>.
\<close>

record cohort_env =
  COHORT_OCT_ID :: "string option"
  COHORT_JAN_ID :: "string option"

definition october :: "'a cohort_env_scheme \<Rightarrow> string option" where
  "october e = or_null (COHORT_OCT_ID e)"

definition january :: "'a cohort_env_scheme \<Rightarrow> string option" where
  "january e = or_null (COHORT_JAN_ID e)"

text \<open>
  \<open>resolveCohortOptionId(input = '')\<close>: the argument defaults to the empty string when
  it is \<open>undefined\<close>; the result is an option id or \<open>null\<close> (\<open>None\<close>).
\<close>

definition resolveCohortOptionId :: "'a cohort_env_scheme \<Rightarrow> string option \<Rightarrow> string option" where
  "resolveCohortOptionId e input =
     (let v = toLowerCase (trim (case input of None \<Rightarrow> [] | Some s \<Rightarrow> s)) in
      if v = ''october'' then october e
      else if v = ''january'' then january e
      else if str_includes v ''dtca-2502'' \<or> str_includes v ''oct'' then october e
      else if str_includes v ''dtca-2601'' \<or> str_includes v ''jan'' then january e
      else None)"

section \<open>Remote calls\<close>

text \<open>
  Every request to the remote task-tracking API is a \<open>fetch\<close>. A handler is modelled
  as a function of the outcomes of the fetches it may make, and returns, with its
  response, the list of the calls it made, in order. A fetch either rejects (with an
  error text) or resolves to a response with its \<open>ok\<close> flag, its status and its body;
  the body is what \<open>r.json()\<close> gives: a rejection with an error text (the body is
  not JSON), a falsy JSON value (\<open>null\<close>, \<open>false\<close>, \<open>0\<close>, \<open>""\<close>), or any
  other value, read at the type the handler uses it at. A body that the server only
  passes on is kept as its JSON text.
\<close>

type_synonym json_text = string

datatype 'a parsed = NotJson string | JFalsy json_text | JVal 'a

datatype 'a fetched = Rejects string | Resolves bool nat "'a parsed"

text \<open>\<open>await r.json().catch(() => ({}))\<close> on a body that is passed on.\<close>

fun json_or_empty :: "json_text parsed \<Rightarrow> json_text" where
  "json_or_empty (NotJson err) = ''{}''"
| "json_or_empty (JFalsy j) = j"
| "json_or_empty (JVal j) = j"

text \<open>
  A custom-field assignment \<open>{ id, value }\<close>, and the calls to the remote API: the
  fetch of the list's fields, the creation of a task (of its body the \<open>custom_fields\<close>
  are kept; no branch reads the name or the description), the upload of an attachment
  to a task under a file name, the update of a field of a task, and the fetch of a
  task by its custom id.
\<close>

type_synonym assignment = "string \<times> string"

datatype remote_call =
    ListFields
  | CreateTask "assignment list"
  | UploadAttachment string string
  | SetField string string string
  | GetTask string

section \<open>The cohort endpoint\<close>

record server_env = cohort_env +
  CF_COHORT :: "string option"
  CLICKUP_CUSTOM_TASK_IDS :: "string option"

record cohort_req =
  taskId :: "string option"
  customTaskId :: "string option"
  cohort :: "string option"

text \<open>
  The bodies of the endpoint's responses, by their \<open>message\<close>:
  \<open>CohortRequired\<close> is "cohort is required", \<open>CohortNotConfigured\<close> is
  "CF_COHORT not configured on server", \<open>UnknownCohort\<close> is "Unknown cohort value; ...",
  \<open>MissingTaskId useCustom\<close> is one of the two "Missing ..." messages,
  \<open>CohortUpdateFailed j\<close> is "clickup_update_failed" with \<open>details: j\<close>,
  \<open>CohortServerError\<close> is "server_error", and
  \<open>CohortOk idUsed usedCustom cohort optionId\<close> is the \<open>status: 'ok'\<close> body.
\<close>

datatype cohort_body =
    CohortRequired
  | CohortNotConfigured
  | UnknownCohort
  | MissingTaskId bool
  | CohortUpdateFailed json_text
  | CohortServerError
  | CohortOk string bool string string

text \<open>\<open>String(process.env.CLICKUP_CUSTOM_TASK_IDS).toLowerCase() === 'true'\<close>\<close>

definition useCustom :: "'a server_env_scheme \<Rightarrow> bool" where
  "useCustom e =
     (toLowerCase (case CLICKUP_CUSTOM_TASK_IDS e of None \<Rightarrow> ''undefined'' | Some s \<Rightarrow> s)
        = ''true'')"

text \<open>\<open>a || b\<close> on two values that may be \<open>undefined\<close>.\<close>

definition or_else :: "string option \<Rightarrow> string option \<Rightarrow> string option" where
  "or_else a b = (if truthy a then a else b)"

text \<open>
  \<open>app.post('/api/cohort', ...)\<close>: the HTTP status and body of the response, and the
  remote calls made. \<open>upd\<close> is the outcome of the one field update it may send.
\<close>

definition cohort_handler ::
  "'a server_env_scheme \<Rightarrow> json_text fetched \<Rightarrow> cohort_req \<Rightarrow> (nat \<times> cohort_body) \<times> remote_call list"
where
  "cohort_handler e upd req =
     (if \<not> truthy (cohort req) then ((400, CohortRequired), [])
      else if \<not> truthy (CF_COHORT e) then ((500, CohortNotConfigured), [])
      else
        let optionId = resolveCohortOptionId e (cohort req) in
        if \<not> truthy optionId then ((400, UnknownCohort), [])
        else
          let idToUse = (if useCustom e then or_else (customTaskId req) (taskId req)
                         else taskId req) in
          if \<not> truthy idToUse then ((400, MissingTaskId (useCustom e)), [])
          else
            let call = SetField (the idToUse) (the (CF_COHORT e)) (the optionId) in
            (case upd of
               Rejects err \<Rightarrow> ((500, CohortServerError), [call])
             | Resolves ok st b \<Rightarrow>
                 if \<not> ok then ((400, CohortUpdateFailed (json_or_empty b)), [call])
                 else ((200, CohortOk (the idToUse) (useCustom e) (the (cohort req)) (the optionId)),
                       [call])))"

section \<open>The option cache and the option resolver\<close>

text \<open>
  \<open>CF\<close>: the custom-field ids, each an environment variable, some with a hard-coded
  default (\<open>process.env.CF_WORK_ELIGIBILITY || 'aec8f523-...'\<close>). The record holds the
  values of the entries of \<open>CF\<close>; an entry with no default may be \<open>undefined\<close>.
\<close>

record cf =
  CF_EMAIL :: "string option"
  CF_PHONE :: "string option"
  CF_LOCATION :: "string option"
  CF_OTHER_LOCATION :: "string option"
  CF_WORK_ELIGIBILITY :: "string option"
  CF_RELIABLE_COMPUTER :: "string option"
  CF_BACKGROUND_CHECK :: "string option"
  CF_EDUCATION :: "string option"
  CF_OTHER_EDUCATION :: "string option"
  CF_CLASS_SCHEDULE :: "string option"
  CF_COMMITMENT_LEVEL :: "string option"
  CF_HEARD_ABOUT :: "string option"
  CF_ENGAGEMENT_REQ :: "string option"
  CF_ADDITIONAL_COMMENTS :: "string option"
  CF_DCA_VIDEO_URL :: "string option"

text \<open>
  One option \<open>{ id, name }\<close> of a dropdown field, and \<open>OPTION_CACHE\<close>, a \<open>Map\<close> from
  field id to the field's options. The remote answers are taken at the types of their
  schema: ids and names are strings.
\<close>

record field_option =
  opt_id :: string
  opt_name :: string

type_synonym option_cache = "string \<rightharpoonup> field_option list"

text \<open>\<open>.replace(/&amp;/g, 'and')\<close>: every occurrence, left to right, not overlapping.\<close>

fun replace_amp :: "string \<Rightarrow> string" where
  "replace_amp [] = []"
| "replace_amp (c # cs) =
     (if take 5 (c # cs) = ''&amp;'' then ''and'' @ replace_amp (drop 4 cs)
      else c # replace_amp cs)"

definition is_alnum :: "char \<Rightarrow> bool" where
  "is_alnum c =
     (let n = (of_char c :: nat) in (97 \<le> n \<and> n \<le> 122) \<or> (48 \<le> n \<and> n \<le> 57))"

text \<open>\<open>.replace(/[^a-z0-9]+/g, ' ')\<close>: each maximal run of other characters becomes one space.\<close>

function collapse :: "string \<Rightarrow> string" where
  "collapse [] = []"
| "collapse (c # cs) =
     (if is_alnum c then c # collapse cs
      else CHR '' '' # collapse (dropWhile (\<lambda>d. \<not> is_alnum d) cs))"
  by pat_completeness auto
termination
  by (relation "measure length") (auto simp: length_dropWhile_le le_imp_less_Suc)

text \<open>The \<open>norm\<close> of \<open>optionIdFor\<close>.\<close>

definition norm :: "string \<Rightarrow> string" where
  "norm s = trim (collapse (replace_amp (toLowerCase s)))"

text \<open>
  The test \<open>/(^| )(i am )?(a )?(us|u s|u\.s\.) (citizen|permanent resident)/.test(u)\<close>.
  The expression has no repetition, so it matches one of finitely many phrases: an
  optional "i am ", an optional "a ", one of the three spellings, a space, and one of
  the two nouns. \<open>(^| )\<close> asks that the phrase stands at the start of \<open>u\<close> or after a
  space anywhere in it.
\<close>

definition us_phrases :: "string list" where
  "us_phrases =
     concat (map (\<lambda>a. concat (map (\<lambda>b. concat (map (\<lambda>c. map (\<lambda>d. a @ b @ c @ '' '' @ d)
         [''citizen'', ''permanent resident''])
       [''us'', ''u s'', ''u.s.'']))
     [[], ''a '']))
   [[], ''i am ''])"

definition us_regex_test :: "string \<Rightarrow> bool" where
  "us_regex_test u = list_ex (\<lambda>p. prefix p u \<or> str_includes u (CHR '' '' # p)) us_phrases"

text \<open>The first of two lookups that found something (\<open>if (found) return found.id\<close>, in order).\<close>

fun orelse :: "'a option \<Rightarrow> 'a option \<Rightarrow> 'a option" where
  "orelse (Some x) _ = Some x"
| "orelse None y = y"

text \<open>The special mapping for the work-eligibility field.\<close>

definition work_eligibility_match :: "field_option list \<Rightarrow> string \<Rightarrow> field_option option" where
  "work_eligibility_match opts u =
     orelse
       (if us_regex_test u \<or> (str_includes u ''us'' \<and> str_includes u ''permanent resident'')
        then find (\<lambda>opt. let nm = norm (opt_name opt) in
                    str_includes nm ''us'' \<and>
                    (str_includes nm ''citizen'' \<or> str_includes nm ''permanent resident'')) opts
        else None)
    (orelse
       (if str_includes u ''canada'' \<or> str_includes u ''canadian''
        then find (\<lambda>opt. let nm = norm (opt_name opt) in
                    str_includes nm ''canada'' \<or> str_includes nm ''canadian'') opts
        else None)
       (if str_includes u ''none'' \<or> str_includes u ''not eligible''
        then find (\<lambda>opt. let nm = norm (opt_name opt) in
                    str_includes nm ''not eligible'' \<or> str_includes nm ''none'') opts
        else None))"

text \<open>
  \<open>optionIdFor(fieldId, raw)\<close>: the id of the matching option, or \<open>null\<close> (\<open>None\<close>).
  The function reads two globals: \<open>CF.WORK_ELIGIBILITY\<close>, here \<open>we\<close>, and
  \<open>OPTION_CACHE\<close>, here \<open>cache\<close>.
\<close>

definition optionIdFor ::
  "string option \<Rightarrow> option_cache \<Rightarrow> string option \<Rightarrow> string option \<Rightarrow> string option"
where
  "optionIdFor we cache fieldId raw =
     (if \<not> truthy fieldId \<or> \<not> truthy raw then None
      else
        let opts = (case cache (the fieldId) of None \<Rightarrow> [] | Some os \<Rightarrow> os);
            u = norm (the raw)
        in
        if opts = [] then None
        else map_option opt_id
          (orelse (find (\<lambda>opt. norm (opt_name opt) = u) opts)
          (orelse (find (\<lambda>opt. let nm = norm (opt_name opt) in
                          str_includes u nm \<or> str_includes nm u) opts)
          (orelse (if u = ''yes'' \<or> u = ''y''
                   then find (\<lambda>opt. norm (opt_name opt) = ''yes'') opts else None)
          (orelse (if u = ''no'' \<or> u = ''n''
                   then find (\<lambda>opt. norm (opt_name opt) = ''no'') opts else None)
                  (if fieldId = we
                   then work_eligibility_match opts u else None))))))"

text \<open>
  \<open>pushDropdownOrText(custom_fields, fieldId, raw)\<close>: the list after the call.
\<close>

definition pushDropdownOrText ::
  "string option \<Rightarrow> option_cache \<Rightarrow> assignment list \<Rightarrow> string option \<Rightarrow> string option
     \<Rightarrow> assignment list"
where
  "pushDropdownOrText we cache custom_fields fieldId raw =
     (if \<not> truthy fieldId \<or> \<not> truthy raw then custom_fields
      else
        let hasOptions = (cache (the fieldId) \<noteq> None);
            oid = optionIdFor we cache fieldId raw
        in
        if truthy oid then custom_fields @ [(the fieldId, the oid)]
        else if \<not> hasOptions then custom_fields @ [(the fieldId, the raw)]
        else custom_fields)"

section \<open>Refreshing the option cache\<close>

text \<open>
  One entry of the \<open>fields\<close> array of the list-fields answer: the field's \<open>id\<close>, and
  \<open>type_config?.options\<close> when that is an array (\<open>None\<close> otherwise).
\<close>

record remote_field =
  field_id :: string
  type_options :: "field_option list option"

text \<open>
  The callback of the \<open>forEach\<close> reads \<open>f.type_config\<close> and, in the \<open>map\<close>,
  \<open>o.id\<close> and \<open>o.name\<close> with no guard: on an entry that is \<open>null\<close>, or whose
  options array has a \<open>null\<close> element, it throws before it stores anything. Such an
  entry is \<open>Malformed\<close>.
\<close>

datatype field_entry = Malformed | Field remote_field

text \<open>The body of the callback: \<open>OPTION_CACHE.set(f.id, options.map(...))\<close>.\<close>

definition cache_field :: "remote_field \<Rightarrow> option_cache \<Rightarrow> option_cache" where
  "cache_field f cache =
     (case type_options f of
        None \<Rightarrow> cache
      | Some os \<Rightarrow>
          cache(field_id f \<mapsto> map (\<lambda>opt. \<lparr>opt_id = opt_id opt, opt_name = opt_name opt\<rparr>) os))"

text \<open>
  The \<open>forEach\<close> loop over the entries: \<open>Inr\<close> is the cache after the loop, \<open>Inl\<close>
  the cache as it stands when the callback throws.
\<close>

fun store_fields :: "field_entry list \<Rightarrow> option_cache \<Rightarrow> option_cache + option_cache" where
  "store_fields [] cache = Inr cache"
| "store_fields (Malformed # es) cache = Inl cache"
| "store_fields (Field f # es) cache = store_fields es (cache_field f cache)"

text \<open>
  The \<open>try\<close> block of \<open>warmDropdowns\<close>, run on the cleared cache: \<open>Inl\<close> is the
  cache as it stands when the block throws (the fetch rejects, the body is not JSON, or
  the loop throws), \<open>Inr\<close> the cache when it completes. The value of a \<open>JVal\<close> body
  is the array \<open>json.fields || []\<close>.
\<close>

definition warm_try :: "field_entry list fetched \<Rightarrow> option_cache \<Rightarrow> option_cache + option_cache" where
  "warm_try ff cache =
     (case ff of
        Rejects err \<Rightarrow> Inl cache
      | Resolves ok st (NotJson err) \<Rightarrow> Inl cache
      | Resolves ok st (JFalsy j) \<Rightarrow> Inr cache
      | Resolves ok st (JVal flds) \<Rightarrow> store_fields flds cache)"

text \<open>
  \<open>warmDropdowns()\<close>: \<open>OPTION_CACHE.clear()\<close>, then the \<open>try\<close> block; the \<open>catch\<close>
  logs and returns. The result is the cache after the call and the remote calls made.
\<close>

definition warmDropdowns :: "field_entry list fetched \<Rightarrow> option_cache \<Rightarrow> option_cache \<times> remote_call list" where
  "warmDropdowns ff cache =
     (let cleared = Map.empty in
      (case warm_try ff cleared of Inl thrown \<Rightarrow> thrown | Inr done \<Rightarrow> done, [ListFields]))"

section \<open>The creation endpoint\<close>

text \<open>
  The form fields that reach the custom fields (\<open>req.body\<close>), and the uploaded file
  (\<open>req.file\<close>, kept in memory by the upload middleware).
\<close>

record payload =
  email :: "string option"
  phone :: "string option"
  location :: "string option"
  otherLocation :: "string option"
  workEligibility :: "string option"
  reliableComputer :: "string option"
  backgroundCheck :: "string option"
  education :: "string option"
  otherEducation :: "string option"
  classSchedule :: "string option"
  commitmentLevel :: "string option"
  heardAbout :: "string option"
  engagementText :: "string option"
  additionalComments :: "string option"

record video_file =
  originalname :: string
  mimetype :: string
  buffer :: string

record apply_req =
  req_body :: payload
  req_file :: "video_file option"

text \<open>\<open>b.x && String(b.x).trim()\<close>, for each field.\<close>

definition normalizePayload :: "payload \<Rightarrow> payload" where
  "normalizePayload b =
     \<lparr> email = map_option trim (email b),
       phone = map_option trim (phone b),
       location = map_option trim (location b),
       otherLocation = map_option trim (otherLocation b),
       workEligibility = map_option trim (workEligibility b),
       reliableComputer = map_option trim (reliableComputer b),
       backgroundCheck = map_option trim (backgroundCheck b),
       education = map_option trim (education b),
       otherEducation = map_option trim (otherEducation b),
       classSchedule = map_option trim (classSchedule b),
       commitmentLevel = map_option trim (commitmentLevel b),
       heardAbout = map_option trim (heardAbout b),
       engagementText = map_option trim (engagementText b),
       additionalComments = map_option trim (additionalComments b) \<rparr>"

text \<open>\<open>if (CF.X && p.x) custom_fields.push({ id: CF.X, value: p.x })\<close>\<close>

definition push_text :: "assignment list \<Rightarrow> string option \<Rightarrow> string option \<Rightarrow> assignment list" where
  "push_text custom_fields fieldId v =
     (if truthy fieldId \<and> truthy v then custom_fields @ [(the fieldId, the v)] else custom_fields)"

text \<open>The block "Build custom_fields" of the handler, in the order of the source.\<close>

definition build_custom_fields :: "'a cf_scheme \<Rightarrow> option_cache \<Rightarrow> payload \<Rightarrow> assignment list" where
  "build_custom_fields c cache p =
     (let we = CF_WORK_ELIGIBILITY c;
          fs = [];
          fs = push_text fs (CF_EMAIL c) (email p);
          fs = push_text fs (CF_PHONE c) (phone p);
          fs = (if truthy (CF_LOCATION c) \<and> truthy (location p)
                then pushDropdownOrText we cache fs (CF_LOCATION c) (location p) else fs);
          fs = push_text fs (CF_OTHER_LOCATION c) (otherLocation p);
          fs = pushDropdownOrText we cache fs (CF_WORK_ELIGIBILITY c) (workEligibility p);
          fs = pushDropdownOrText we cache fs (CF_RELIABLE_COMPUTER c) (reliableComputer p);
          fs = pushDropdownOrText we cache fs (CF_BACKGROUND_CHECK c) (backgroundCheck p);
          fs = pushDropdownOrText we cache fs (CF_EDUCATION c) (education p);
          fs = push_text fs (CF_OTHER_EDUCATION c) (otherEducation p);
          fs = pushDropdownOrText we cache fs (CF_CLASS_SCHEDULE c) (classSchedule p);
          fs = pushDropdownOrText we cache fs (CF_COMMITMENT_LEVEL c) (commitmentLevel p);
          fs = pushDropdownOrText we cache fs (CF_HEARD_ABOUT c) (heardAbout p);
          fs = push_text fs (CF_ENGAGEMENT_REQ c) (engagementText p);
          fs = push_text fs (CF_ADDITIONAL_COMMENTS c) (additionalComments p)
      in fs)"

text \<open>
  The answers of the remote API that the handler reads. Of the created task: its JSON
  text and \<open>created?.id\<close>, \<open>created?.custom_id\<close>, \<open>created?.url\<close>. Of the upload
  answer: its JSON text and the value of
  \<open>upJson?.url || upJson?.attachment?.url || (Array.isArray(upJson) && upJson[0]?.url) || null\<close>.
\<close>

record created_task =
  created_json :: json_text
  created_id :: "string option"
  created_custom_id :: "string option"
  created_url :: "string option"

record upload_answer =
  upload_json :: json_text
  att_url :: "string option"

text \<open>
  The outcomes of the fetches one request to the endpoint may make, and the text of the
  \<open>TypeError\<close> that \<open>create.text()\<close> raises on a body already read by \<open>create.json()\<close>.
\<close>

record remote =
  list_fields :: "field_entry list fetched"
  create_task :: "created_task fetched"
  upload_attachment :: "upload_answer fetched"
  set_url_field :: "json_text fetched"
  body_used :: string

text \<open>
  \<open>uploadMsg\<close> in the response (\<open>upload: uploadMsg || 'ok'\<close>): \<open>'ok'\<close>,
  \<open>{ step: 'upload', status, body }\<close> or \<open>{ step: 'exception', err }\<close>.
\<close>

datatype upload_msg =
    UploadOk
  | UploadFailed nat json_text
  | UploadException string

text \<open>
  The response bodies, by their \<open>status\<close>: \<open>'validation_error'\<close> with its \<open>field\<close>,
  \<open>'clickup_create_failed'\<close> with \<open>err\<close> and \<open>debug.sent_custom_fields\<close>,
  \<open>'ok'\<close> with \<open>taskId\<close>, \<open>customTaskId\<close>, \<open>taskUrl\<close> and \<open>upload\<close>, and
  \<open>'server_error'\<close> with \<open>detail\<close>.
\<close>

datatype apply_body =
    ValidationError string
  | ClickupCreateFailed json_text "string list"
  | ApplyOk "string option" "string option" "string option" upload_msg
  | ServerError string

text \<open>
  The upload step of the handler, entered when \<open>taskId\<close> is truthy and the file has
  bytes: the \<open>try\<close> block with its \<open>catch\<close>. It gives \<open>uploadMsg\<close> and the calls made.
\<close>

definition upload_step :: "'a cf_scheme \<Rightarrow> remote \<Rightarrow> string \<Rightarrow> video_file \<Rightarrow> upload_msg \<times> remote_call list" where
  "upload_step c r tid f =
     (let name = (if originalname f \<noteq> [] then originalname f else ''video.mp4'');
          up_call = UploadAttachment tid name
      in
      case upload_attachment r of
        Rejects err \<Rightarrow> (UploadException err, [up_call])
      | Resolves ok st b \<Rightarrow>
          let upJson = (case b of
                          NotJson err \<Rightarrow> \<lparr>upload_json = ''{}'', att_url = None\<rparr>
                        | JFalsy j \<Rightarrow> \<lparr>upload_json = j, att_url = None\<rparr>
                        | JVal u \<Rightarrow> u)
          in
          if \<not> ok then (UploadFailed st (upload_json upJson), [up_call])
          else
            let attUrl = or_null (att_url upJson) in
            if truthy attUrl \<and> truthy (CF_DCA_VIDEO_URL c) then
              (case set_url_field r of
                 Rejects err \<Rightarrow>
                   (UploadException err,
                    [up_call, SetField tid (the (CF_DCA_VIDEO_URL c)) (the attUrl)])
               | Resolves ok' st' b' \<Rightarrow>
                   (UploadOk, [up_call, SetField tid (the (CF_DCA_VIDEO_URL c)) (the attUrl)]))
            else (UploadOk, [up_call]))"

text \<open>
  \<open>app.post('/api/apply', ...)\<close>, for a request that passed the upload middleware:
  the HTTP status and body of the response, the remote calls made, in order, and the
  option cache after the request.
\<close>

definition apply_handler ::
  "'a cf_scheme \<Rightarrow> remote \<Rightarrow> option_cache \<Rightarrow> apply_req
     \<Rightarrow> (nat \<times> apply_body) \<times> remote_call list \<times> option_cache"
where
  "apply_handler c r cache0 req =
     (let (cache, warm_calls) = warmDropdowns (list_fields r) cache0;
          p = normalizePayload (req_body req)
      in
      case req_file req of
        None \<Rightarrow> ((200, ValidationError ''videoFile''), warm_calls, cache)
      | Some f \<Rightarrow>
          if buffer f = [] then ((200, ValidationError ''videoFile''), warm_calls, cache)
          else
            let custom_fields = build_custom_fields c cache p;
                calls = warm_calls @ [CreateTask custom_fields]
            in
            (case create_task r of
              Rejects err \<Rightarrow> ((200, ServerError err), calls, cache)
            | Resolves ok st (NotJson err) \<Rightarrow> ((200, ServerError err), calls, cache)
            | Resolves ok st created \<Rightarrow>
                if \<not> ok then
                  (case created of
                     JVal cr \<Rightarrow>
                       ((200, ClickupCreateFailed (created_json cr) (map fst custom_fields)),
                        calls, cache)
                   | _ \<Rightarrow> ((200, ServerError (body_used r)), calls, cache))
                else
                  let cr = (case created of
                              JVal cr \<Rightarrow> cr
                            | _ \<Rightarrow> \<lparr>created_json = [], created_id = None,
                                     created_custom_id = None, created_url = None\<rparr>);
                      tid = created_id cr
                  in
                  if truthy tid then
                    let (uploadMsg, up_calls) = upload_step c r (the tid) f in
                    ((200, ApplyOk tid (or_null (created_custom_id cr)) (created_url cr) uploadMsg),
                     calls @ up_calls, cache)
                  else
                    ((200, ApplyOk tid (or_null (created_custom_id cr)) (created_url cr) UploadOk),
                     calls, cache)))"

section \<open>The guarantee-sign endpoint\<close>

text \<open>
  \<open>resolveTaskId({ taskId, customTaskId })\<close>: \<open>Inl\<close> is the exception it throws (the
  fetch rejects, or the body of an \<open>ok\<close> answer is not JSON), \<open>Inr\<close> the id or \<open>null\<close>.
  The value of a \<open>JVal\<close> body is \<open>t?.id\<close>.
\<close>

definition resolveTaskId ::
  "string option fetched \<Rightarrow> string option \<Rightarrow> string option
     \<Rightarrow> (string + string option) \<times> remote_call list"
where
  "resolveTaskId get_task tid ctid =
     (if truthy tid then (Inr tid, [])
      else if \<not> truthy ctid then (Inr None, [])
      else
        (case get_task of
           Rejects err \<Rightarrow> Inl err
         | Resolves ok st b \<Rightarrow>
             if \<not> ok then Inr None
             else (case b of
                     NotJson err \<Rightarrow> Inl err
                   | JFalsy j \<Rightarrow> Inr None
                   | JVal t \<Rightarrow> Inr (or_null t)),
         [GetTask (the ctid)]))"

record sign_req =
  sign_taskId :: "string option"
  sign_customTaskId :: "string option"
  fullName :: "string option"
  signedAt :: "string option"
  termsText :: "string option"
  signaturePng :: "string option"

text \<open>\<open>(signaturePng || '').split(',')[1]\<close>: the text between the first two commas.\<close>

definition split_second :: "string \<Rightarrow> string option" where
  "split_second s =
     (if CHR '','' \<in> set s
      then Some (takeWhile (\<lambda>c. c \<noteq> CHR '','') (tl (dropWhile (\<lambda>c. c \<noteq> CHR '','') s)))
      else None)"

text \<open>\<open>.replace(/[^\w\- ]+/g, '')\<close> keeps letters, digits, \<open>_\<close>, \<open>-\<close> and the space.\<close>

definition is_name_char :: "char \<Rightarrow> bool" where
  "is_name_char c =
     (let n = (of_char c :: nat) in
      (97 \<le> n \<and> n \<le> 122) \<or> (65 \<le> n \<and> n \<le> 90) \<or> (48 \<le> n \<and> n \<le> 57) \<or>
      c = CHR ''_'' \<or> c = CHR ''-'' \<or> c = CHR '' '')"

definition pdf_file_name :: "string option \<Rightarrow> string \<Rightarrow> string" where
  "pdf_file_name name now =
     ''DCA-Job-Guarantee-'' @ filter is_name_char (if truthy name then the name else ''Applicant'')
       @ ''-'' @ now @ ''.pdf''"

text \<open>
  The file system is the set of the paths that exist. \<open>fs.unlinkSync\<close> and
  \<open>fs.rmdirSync\<close> stand in a \<open>try\<close> with an empty \<open>catch\<close>: a missing file is left
  missing, and a directory that still has an entry stays.
\<close>

type_synonym filesys = "string set"

definition path_join :: "string \<Rightarrow> string \<Rightarrow> string" where
  "path_join d f = d @ ''/'' @ f"

definition unlink :: "string \<Rightarrow> filesys \<Rightarrow> filesys" where
  "unlink p fs = fs - {p}"

definition rmdir :: "string \<Rightarrow> filesys \<Rightarrow> filesys" where
  "rmdir d fs = (if \<exists>p\<in>fs. strict_prefix (d @ ''/'') p \<or> p = d @ ''/'' then fs else fs - {d})"

text \<open>
  How the promise that renders the PDF settles. It resolves when the write stream
  finishes: the signature image and the PDF are then on disk. It rejects when the
  executor throws (\<open>fs.writeFileSync\<close>) or the stream reports an error; the two flags
  say whether the signature file and the PDF file then exist.
\<close>

datatype render_outcome =
    RenderFinished
  | RenderRejected string bool bool

text \<open>
  What the handler meets outside itself: the outcomes of its fetches, the directory
  \<open>fs.mkdtempSync\<close> creates (or the error it throws), \<open>Date.now()\<close> as text, how the
  rendering settles, and \<open>process.env.CF_GUARANTEE_SIGNED\<close>.
\<close>

record sign_env =
  get_task :: "string option fetched"
  mkdtemp :: "string + string"
  date_now :: string
  render :: render_outcome
  upload_pdf :: "json_text fetched"
  CF_GUARANTEE_SIGNED :: "string option"

datatype sign_body =
    TaskNotFound
  | BadSignature
  | SignServerError
  | SignOk json_text

text \<open>
  \<open>app.post('/api/guarantee-sign', ...)\<close>: the HTTP status and body of the response,
  the remote calls made, and the file system when the handler returns.
\<close>

definition guarantee_sign ::
  "sign_env \<Rightarrow> filesys \<Rightarrow> sign_req \<Rightarrow> (nat \<times> sign_body) \<times> remote_call list \<times> filesys"
where
  "guarantee_sign e fs req =
     (case resolveTaskId (get_task e) (sign_taskId req) (sign_customTaskId req) of
        (Inl err, calls) \<Rightarrow> ((500, SignServerError), calls, fs)
      | (Inr resolved, calls) \<Rightarrow>
          if \<not> truthy resolved then ((400, TaskNotFound), calls, fs)
          else
            let b64 = split_second (if truthy (signaturePng req) then the (signaturePng req) else [])
            in
            if \<not> truthy b64 then ((400, BadSignature), calls, fs)
            else
              (case mkdtemp e of
                 Inl err \<Rightarrow> ((500, SignServerError), calls, fs)
               | Inr tmpDir \<Rightarrow>
                   let fileName = pdf_file_name (fullName req) (date_now e);
                       pdfPath = path_join tmpDir fileName;
                       imgPath = path_join tmpDir ''sig.png'';
                       fs = insert tmpDir fs
                   in
                   (case render e of
                      RenderRejected err sig_written pdf_created \<Rightarrow>
                        ((500, SignServerError), calls,
                         fs \<union> (if sig_written then {imgPath} else {})
                            \<union> (if pdf_created then {pdfPath} else {}))
                    | RenderFinished \<Rightarrow>
                        let fs = insert pdfPath (insert imgPath fs);
                            calls = calls @ [UploadAttachment (the resolved) fileName]
                        in
                        (case upload_pdf e of
                           Rejects err \<Rightarrow> ((500, SignServerError), calls, fs)
                         | Resolves ok st b \<Rightarrow>
                             let upBody = json_or_empty b;
                                 fs = unlink imgPath fs;
                                 fs = unlink pdfPath fs;
                                 fs = rmdir tmpDir fs;
                                 calls = (if truthy (CF_GUARANTEE_SIGNED e)
                                          then calls @ [SetField (the resolved)
                                                          (the (CF_GUARANTEE_SIGNED e)) ''true'']
                                          else calls)
                             in ((200, SignOk upBody), calls, fs)))))"

section \<open>Example values\<close>

text \<open>
  \<open>CF\<close> on a server with no \<open>CF_*\<close> environment variable set: the six hard-coded
  defaults of the source, every other entry \<open>undefined\<close>.
\<close>

definition default_cf :: cf where
  "default_cf =
     \<lparr> CF_EMAIL = None, CF_PHONE = None, CF_LOCATION = None, CF_OTHER_LOCATION = None,
       CF_WORK_ELIGIBILITY = Some ''aec8f523-e21d-4cd7-a359-d52f712009cb'',
       CF_RELIABLE_COMPUTER = Some ''ba53f6aa-997f-4af6-9e52-dd4e76c31723'',
       CF_BACKGROUND_CHECK = Some ''bda2b4d0-d66e-49ef-b315-b8dce562abfd'',
       CF_EDUCATION = Some ''54a767b7-175a-46b6-b380-741c654017b2'',
       CF_OTHER_EDUCATION = None,
       CF_CLASS_SCHEDULE = Some ''90cf8381-4096-4b5c-8d8d-46f679ae7ef0'',
       CF_COMMITMENT_LEVEL = None,
       CF_HEARD_ABOUT = Some ''f44b2bb5-0120-40fd-97c6-17ca42c85d32'',
       CF_ENGAGEMENT_REQ = None, CF_ADDITIONAL_COMMENTS = None, CF_DCA_VIDEO_URL = None \<rparr>"

text \<open>The form fields of a request with an empty body.\<close>

definition empty_payload :: payload where
  "empty_payload =
     \<lparr> email = None, phone = None, location = None, otherLocation = None,
       workEligibility = None, reliableComputer = None, backgroundCheck = None,
       education = None, otherEducation = None, classSchedule = None,
       commitmentLevel = None, heardAbout = None, engagementText = None,
       additionalComments = None \<rparr>"

text \<open>
  A remote API that answers every call with success: no dropdown fields, the created
  task "t1", an upload answer with no url.
\<close>

definition remote_ok :: remote where
  "remote_ok =
     \<lparr> list_fields = Resolves True 200 (JVal []),
       create_task = Resolves True 200
         (JVal \<lparr>created_json = ''{\"id\":\"t1\"}'', created_id = Some ''t1'',
                created_custom_id = None, created_url = None\<rparr>),
       upload_attachment = Resolves True 200 (JVal \<lparr>upload_json = ''{}'', att_url = None\<rparr>),
       set_url_field = Resolves True 200 (JVal ''{}''),
       body_used = ''TypeError: Body is unusable'' \<rparr>"

section \<open>Properties of the cohort resolution\<close>

lemma cohort_key_dtca: "toLowerCase (trim ''DTCA-2502 extra text'') = ''dtca-2502 extra text''"
  by code_simp

lemma cohort_key_unknown: "toLowerCase (trim ''unknown'') = ''unknown''"
  by code_simp

lemma resolve_dtca_2502: "resolveCohortOptionId e (Some ''DTCA-2502 extra text'') = october e"
proof -
  have i: "str_includes ''dtca-2502 extra text'' ''dtca-2502''"
    by code_simp
  show ?thesis
    unfolding resolveCohortOptionId_def by (simp add: cohort_key_dtca i)
qed

lemma resolve_unknown: "resolveCohortOptionId e (Some ''unknown'') = None"
proof -
  have i: "\<not> str_includes ''unknown'' ''dtca-2502''" "\<not> str_includes ''unknown'' ''oct''"
    "\<not> str_includes ''unknown'' ''dtca-2601''" "\<not> str_includes ''unknown'' ''jan''"
    by code_simp+
  show ?thesis
    unfolding resolveCohortOptionId_def by (simp add: cohort_key_unknown i)
qed

text \<open>
  C6. The cohort resolution maps "DTCA-2502 extra text" to the October option id and
  "unknown" to no option; the cohort endpoint, on a server whose cohort field is
  configured, then answers a request for the cohort "unknown" with status 400 (the
  "Unknown cohort value" error) and sends nothing to the remote API.
\<close>

theorem cohort_resolution_examples:
  "resolveCohortOptionId e (Some ''DTCA-2502 extra text'') = october e \<and>
   resolveCohortOptionId e (Some ''unknown'') = None \<and>
   (truthy (CF_COHORT e) \<longrightarrow>
      cohort_handler e upd (req\<lparr>cohort := Some ''unknown''\<rparr>) = ((400, UnknownCohort), []))"
  by (simp add: resolve_dtca_2502 resolve_unknown cohort_handler_def)

theorem cohort_resolution_examples_witness:
  "truthy (CF_COHORT \<lparr>COHORT_OCT_ID = Some ''oct-id'', COHORT_JAN_ID = Some ''jan-id'',
                       CF_COHORT = Some ''cohort-field'', CLICKUP_CUSTOM_TASK_IDS = None\<rparr>) \<and>
   cohort_handler \<lparr>COHORT_OCT_ID = Some ''oct-id'', COHORT_JAN_ID = Some ''jan-id'',
                   CF_COHORT = Some ''cohort-field'', CLICKUP_CUSTOM_TASK_IDS = None\<rparr>
     (Resolves True 200 (JVal ''{}''))
     (\<lparr>taskId = Some ''t1'', customTaskId = None, cohort = Some ''x''\<rparr>\<lparr>cohort := Some ''unknown''\<rparr>)
     = ((400, UnknownCohort), []) \<and>
   resolveCohortOptionId \<lparr>COHORT_OCT_ID = Some ''oct-id'', COHORT_JAN_ID = Some ''jan-id'',
                   CF_COHORT = Some ''cohort-field'', CLICKUP_CUSTOM_TASK_IDS = None\<rparr>
     (Some ''DTCA-2502 extra text'') = Some ''oct-id''"
  using cohort_resolution_examples
    [of "\<lparr>COHORT_OCT_ID = Some ''oct-id'', COHORT_JAN_ID = Some ''jan-id'',
          CF_COHORT = Some ''cohort-field'', CLICKUP_CUSTOM_TASK_IDS = None\<rparr>"
        "Resolves True 200 (JVal ''{}'')"
        "\<lparr>taskId = Some ''t1'', customTaskId = None, cohort = Some ''x''\<rparr>"]
  by (simp add: october_def or_null_def)

lemma january_has_no_oct: "\<not> str_includes ''january'' ''oct''"
  by code_simp

lemma october_has_oct: "str_includes ''october'' ''oct''"
  by code_simp

lemma january_has_jan: "str_includes ''january'' ''jan''"
  by code_simp

lemma includes_trans: "str_includes s t \<Longrightarrow> str_includes t u \<Longrightarrow> str_includes s u"
  unfolding str_includes_def by (rule sublist_order.order_trans)

lemma includes_refl: "str_includes s s"
  unfolding str_includes_def by simp

lemma resolve_oct:
  "str_includes (toLowerCase (trim s)) ''oct'' \<Longrightarrow> resolveCohortOptionId e (Some s) = october e"
  unfolding resolveCohortOptionId_def using january_has_no_oct by (auto simp: Let_def)

lemma resolve_jan:
  assumes "str_includes (toLowerCase (trim s)) ''jan''"
    and "\<not> str_includes (toLowerCase (trim s)) ''oct''"
    and "\<not> str_includes (toLowerCase (trim s)) ''dtca-2502''"
  shows "resolveCohortOptionId e (Some s) = january e"
  using assms october_has_oct unfolding resolveCohortOptionId_def by (auto simp: Let_def)

lemma resolve_none:
  assumes "\<not> str_includes (toLowerCase (trim s)) ''oct''"
    and "\<not> str_includes (toLowerCase (trim s)) ''jan''"
    and "\<not> str_includes (toLowerCase (trim s)) ''dtca-2502''"
    and "\<not> str_includes (toLowerCase (trim s)) ''dtca-2601''"
  shows "resolveCohortOptionId e (Some s) = None"
  using assms october_has_oct january_has_jan unfolding resolveCohortOptionId_def
  by (auto simp: Let_def)

lemma truthy_iff: "truthy x \<longleftrightarrow> (\<exists>s. x = Some s \<and> s \<noteq> [])"
  by (cases x) auto

lemma or_null_truthy: "truthy x \<Longrightarrow> or_null x = x"
  by (simp add: or_null_def)

lemma resolve_none_only:
  assumes "truthy (COHORT_OCT_ID e)" and "truthy (COHORT_JAN_ID e)"
    and "resolveCohortOptionId e (Some s) = None"
  shows "\<not> str_includes (toLowerCase (trim s)) ''oct'' \<and>
         \<not> str_includes (toLowerCase (trim s)) ''jan'' \<and>
         \<not> str_includes (toLowerCase (trim s)) ''dtca-2502'' \<and>
         \<not> str_includes (toLowerCase (trim s)) ''dtca-2601''"
proof -
  have o: "october e \<noteq> None" and j: "january e \<noteq> None"
    using assms(1,2) by (auto simp: october_def january_def or_null_truthy truthy_iff)
  show ?thesis
    using assms(3) o j october_has_oct january_has_jan unfolding resolveCohortOptionId_def
    by (auto simp: Let_def split: if_splits)
qed

text \<open>
  C10, as the code has it. The cohort resolution matches by bare substring, October
  first. For the trimmed, lowercased input \<open>v\<close>: if \<open>v\<close> contains "oct" (as "doctor"
  does) the result is the October option id; if \<open>v\<close> contains "jan" and neither "oct"
  nor "dtca-2502" the result is the January option id; if \<open>v\<close> contains none of
  "october", "january", "dtca-2502", "oct", "dtca-2601", "jan" the result is null; and
  when both option ids are configured, a null result means that \<open>v\<close> contains none of
  the six.
\<close>

theorem cohort_substring_resolution:
  fixes s :: string
  defines "v \<equiv> toLowerCase (trim s)"
  shows
  "(str_includes v ''oct'' \<longrightarrow> resolveCohortOptionId e (Some s) = october e) \<and>
   (str_includes v ''jan'' \<and> \<not> str_includes v ''oct'' \<and> \<not> str_includes v ''dtca-2502'' \<longrightarrow>
      resolveCohortOptionId e (Some s) = january e) \<and>
   (\<not> str_includes v ''october'' \<and> \<not> str_includes v ''january'' \<and>
    \<not> str_includes v ''dtca-2502'' \<and> \<not> str_includes v ''oct'' \<and>
    \<not> str_includes v ''dtca-2601'' \<and> \<not> str_includes v ''jan'' \<longrightarrow>
      resolveCohortOptionId e (Some s) = None) \<and>
   (truthy (COHORT_OCT_ID e) \<and> truthy (COHORT_JAN_ID e) \<and>
    resolveCohortOptionId e (Some s) = None \<longrightarrow>
      \<not> str_includes v ''october'' \<and> \<not> str_includes v ''january'' \<and>
      \<not> str_includes v ''dtca-2502'' \<and> \<not> str_includes v ''oct'' \<and>
      \<not> str_includes v ''dtca-2601'' \<and> \<not> str_includes v ''jan'')"
proof (intro conjI impI)
  assume "str_includes v ''oct''"
  then show "resolveCohortOptionId e (Some s) = october e"
    unfolding v_def by (rule resolve_oct)
next
  assume "str_includes v ''jan'' \<and> \<not> str_includes v ''oct'' \<and> \<not> str_includes v ''dtca-2502''"
  then show "resolveCohortOptionId e (Some s) = january e"
    unfolding v_def by (simp add: resolve_jan)
next
  assume "\<not> str_includes v ''october'' \<and> \<not> str_includes v ''january'' \<and>
    \<not> str_includes v ''dtca-2502'' \<and> \<not> str_includes v ''oct'' \<and>
    \<not> str_includes v ''dtca-2601'' \<and> \<not> str_includes v ''jan''"
  then show "resolveCohortOptionId e (Some s) = None"
    unfolding v_def by (simp add: resolve_none)
next
  assume a: "truthy (COHORT_OCT_ID e) \<and> truthy (COHORT_JAN_ID e) \<and>
    resolveCohortOptionId e (Some s) = None"
  then have n: "\<not> str_includes v ''oct'' \<and> \<not> str_includes v ''jan'' \<and>
      \<not> str_includes v ''dtca-2502'' \<and> \<not> str_includes v ''dtca-2601''"
    using resolve_none_only [of e s] unfolding v_def by blast
  from n show "\<not> str_includes v ''october''"
    using includes_trans [OF _ october_has_oct] by blast
  from n show "\<not> str_includes v ''january''"
    using includes_trans [OF _ january_has_jan] by blast
  from n show "\<not> str_includes v ''dtca-2502''" "\<not> str_includes v ''oct''"
    "\<not> str_includes v ''dtca-2601''" "\<not> str_includes v ''jan''"
    by simp_all
qed


theorem cohort_substring_resolution_witness:
  "str_includes (toLowerCase (trim ''doctor'')) ''oct'' \<and>
   resolveCohortOptionId \<lparr>COHORT_OCT_ID = Some ''O'', COHORT_JAN_ID = Some ''J''\<rparr> (Some ''doctor'')
     = october \<lparr>COHORT_OCT_ID = Some ''O'', COHORT_JAN_ID = Some ''J''\<rparr> \<and>
   str_includes (toLowerCase (trim ''Jan 2026'')) ''jan'' \<and>
   resolveCohortOptionId \<lparr>COHORT_OCT_ID = Some ''O'', COHORT_JAN_ID = Some ''J''\<rparr> (Some ''Jan 2026'')
     = january \<lparr>COHORT_OCT_ID = Some ''O'', COHORT_JAN_ID = Some ''J''\<rparr> \<and>
   truthy (COHORT_OCT_ID \<lparr>COHORT_OCT_ID = Some ''O'', COHORT_JAN_ID = Some ''J''\<rparr>) \<and>
   truthy (COHORT_JAN_ID \<lparr>COHORT_OCT_ID = Some ''O'', COHORT_JAN_ID = Some ''J''\<rparr>) \<and>
   \<not> str_includes (toLowerCase (trim ''spring'')) ''october'' \<and>
   \<not> str_includes (toLowerCase (trim ''spring'')) ''january'' \<and>
   \<not> str_includes (toLowerCase (trim ''spring'')) ''dtca-2502'' \<and>
   \<not> str_includes (toLowerCase (trim ''spring'')) ''oct'' \<and>
   \<not> str_includes (toLowerCase (trim ''spring'')) ''dtca-2601'' \<and>
   \<not> str_includes (toLowerCase (trim ''spring'')) ''jan'' \<and>
   resolveCohortOptionId \<lparr>COHORT_OCT_ID = Some ''O'', COHORT_JAN_ID = Some ''J''\<rparr> (Some ''spring'')
     = None"
proof -
  have k: "toLowerCase (trim ''doctor'') = ''doctor''" "toLowerCase (trim ''Jan 2026'') = ''jan 2026''"
    "toLowerCase (trim ''spring'') = ''spring''"
    by code_simp+
  have d: "str_includes ''doctor'' ''oct''"
    by code_simp
  have j: "str_includes ''jan 2026'' ''jan''" "\<not> str_includes ''jan 2026'' ''oct''"
    "\<not> str_includes ''jan 2026'' ''dtca-2502''"
    by code_simp+
  have n: "\<not> str_includes ''spring'' ''october''" "\<not> str_includes ''spring'' ''january''"
    "\<not> str_includes ''spring'' ''dtca-2502''" "\<not> str_includes ''spring'' ''oct''"
    "\<not> str_includes ''spring'' ''dtca-2601''" "\<not> str_includes ''spring'' ''jan''"
    by code_simp+
  show ?thesis
    using cohort_substring_resolution
        [of "''doctor''" "\<lparr>COHORT_OCT_ID = Some ''O'', COHORT_JAN_ID = Some ''J''\<rparr>"]
      cohort_substring_resolution
        [of "''Jan 2026''" "\<lparr>COHORT_OCT_ID = Some ''O'', COHORT_JAN_ID = Some ''J''\<rparr>"]
      cohort_substring_resolution
        [of "''spring''" "\<lparr>COHORT_OCT_ID = Some ''O'', COHORT_JAN_ID = Some ''J''\<rparr>"]
    by (simp add: k d j n)
qed

text \<open>
  The claim C10 as it was stated fails twice. The input "January or October" contains
  "jan" and resolves to the October option id, not the January one; and on a server
  with no cohort option ids configured the input "october" resolves to null although
  it contains "october".
\<close>

theorem cohort_substring_counterexample:
  "str_includes (toLowerCase (trim ''January or October'')) ''jan'' \<and>
   resolveCohortOptionId \<lparr>COHORT_OCT_ID = Some ''O'', COHORT_JAN_ID = Some ''J''\<rparr>
     (Some ''January or October'') = Some ''O'' \<and>
   january \<lparr>COHORT_OCT_ID = Some ''O'', COHORT_JAN_ID = Some ''J''\<rparr> = Some ''J'' \<and>
   str_includes (toLowerCase (trim ''october'')) ''october'' \<and>
   resolveCohortOptionId \<lparr>COHORT_OCT_ID = None, COHORT_JAN_ID = None\<rparr> (Some ''october'') = None"
proof -
  have k: "toLowerCase (trim ''January or October'') = ''january or october''"
    "toLowerCase (trim ''october'') = ''october''"
    by code_simp+
  have i: "str_includes ''january or october'' ''jan''" "str_includes ''january or october'' ''oct''"
    by code_simp+
  show ?thesis
    by (simp add: resolveCohortOptionId_def k i october_def january_def or_null_def includes_refl)
qed

section \<open>Properties of the option resolver\<close>

lemma optionIdFor_uncached: "cache fid = None \<Longrightarrow> optionIdFor we cache (Some fid) raw = None"
  by (simp add: optionIdFor_def)

lemma pushDropdownOrText_guard:
  "\<not> truthy fieldId \<or> \<not> truthy raw \<Longrightarrow> pushDropdownOrText we cache fs fieldId raw = fs"
  by (auto simp: pushDropdownOrText_def)

lemma pushDropdownOrText_resolved:
  assumes "fid \<noteq> []" and "raw \<noteq> []"
    and "optionIdFor we cache (Some fid) (Some raw) = Some i" and "i \<noteq> []"
  shows "pushDropdownOrText we cache fs (Some fid) (Some raw) = fs @ [(fid, i)]"
  using assms by (simp add: pushDropdownOrText_def Let_def)

lemma pushDropdownOrText_unmatched:
  assumes "fid \<noteq> []" and "raw \<noteq> []"
    and "cache fid = Some opts" and "optionIdFor we cache (Some fid) (Some raw) = None"
  shows "pushDropdownOrText we cache fs (Some fid) (Some raw) = fs"
  using assms by (simp add: pushDropdownOrText_def Let_def)

lemma pushDropdownOrText_text:
  assumes "fid \<noteq> []" and "raw \<noteq> []" and "cache fid = None"
  shows "pushDropdownOrText we cache fs (Some fid) (Some raw) = fs @ [(fid, raw)]"
  using assms by (simp add: pushDropdownOrText_def Let_def optionIdFor_uncached)

text \<open>
  C1, as the code has it. For every non-empty field id and non-empty raw value,
  \<open>pushDropdownOrText\<close> appends the assignment of the resolved option id when the
  resolver returns a (non-empty) id, which it does only for a field with cached
  options; appends nothing when the field has cached options and the resolver returns
  null; and appends the raw value unchanged when the field has no cached options. When
  the field id or the raw value is absent or empty it appends nothing.
\<close>

theorem pushDropdownOrText_cases:
  "(fid \<noteq> [] \<and> raw \<noteq> [] \<and> optionIdFor we cache (Some fid) (Some raw) = Some i \<and> i \<noteq> [] \<longrightarrow>
      cache fid \<noteq> None \<and>
      pushDropdownOrText we cache fs (Some fid) (Some raw) = fs @ [(fid, i)]) \<and>
   (fid \<noteq> [] \<and> raw \<noteq> [] \<and> cache fid = Some opts \<and>
    optionIdFor we cache (Some fid) (Some raw) = None \<longrightarrow>
      pushDropdownOrText we cache fs (Some fid) (Some raw) = fs) \<and>
   (fid \<noteq> [] \<and> raw \<noteq> [] \<and> cache fid = None \<longrightarrow>
      pushDropdownOrText we cache fs (Some fid) (Some raw) = fs @ [(fid, raw)]) \<and>
   (\<not> truthy fieldId \<or> \<not> truthy value \<longrightarrow>
      pushDropdownOrText we cache fs fieldId value = fs)"
proof (intro conjI impI)
  assume a: "fid \<noteq> [] \<and> raw \<noteq> [] \<and> optionIdFor we cache (Some fid) (Some raw) = Some i \<and> i \<noteq> []"
  then show "cache fid \<noteq> None"
    using optionIdFor_uncached [of cache fid we "Some raw"] by auto
  from a show "pushDropdownOrText we cache fs (Some fid) (Some raw) = fs @ [(fid, i)]"
    by (simp add: pushDropdownOrText_resolved)
next
  assume "fid \<noteq> [] \<and> raw \<noteq> [] \<and> cache fid = Some opts \<and>
    optionIdFor we cache (Some fid) (Some raw) = None"
  then show "pushDropdownOrText we cache fs (Some fid) (Some raw) = fs"
    using pushDropdownOrText_unmatched by blast
next
  assume "fid \<noteq> [] \<and> raw \<noteq> [] \<and> cache fid = None"
  then show "pushDropdownOrText we cache fs (Some fid) (Some raw) = fs @ [(fid, raw)]"
    by (simp add: pushDropdownOrText_text)
next
  assume "\<not> truthy fieldId \<or> \<not> truthy value"
  then show "pushDropdownOrText we cache fs fieldId value = fs"
    by (rule pushDropdownOrText_guard)
qed

theorem pushDropdownOrText_cases_witness:
  "optionIdFor (Some ''we'')
     [''rc'' \<mapsto> [\<lparr>opt_id = ''id-yes'', opt_name = ''Yes''\<rparr>, \<lparr>opt_id = ''id-no'', opt_name = ''No''\<rparr>]]
     (Some ''rc'') (Some ''yes'') = Some ''id-yes'' \<and>
   pushDropdownOrText (Some ''we'')
     [''rc'' \<mapsto> [\<lparr>opt_id = ''id-yes'', opt_name = ''Yes''\<rparr>, \<lparr>opt_id = ''id-no'', opt_name = ''No''\<rparr>]]
     [(''em'', ''a@b.c'')] (Some ''rc'') (Some ''yes'') = [(''em'', ''a@b.c''), (''rc'', ''id-yes'')] \<and>
   optionIdFor (Some ''we'')
     [''rc'' \<mapsto> [\<lparr>opt_id = ''id-yes'', opt_name = ''Yes''\<rparr>, \<lparr>opt_id = ''id-no'', opt_name = ''No''\<rparr>]]
     (Some ''rc'') (Some ''maybe'') = None \<and>
   pushDropdownOrText (Some ''we'')
     [''rc'' \<mapsto> [\<lparr>opt_id = ''id-yes'', opt_name = ''Yes''\<rparr>, \<lparr>opt_id = ''id-no'', opt_name = ''No''\<rparr>]]
     [(''em'', ''a@b.c'')] (Some ''rc'') (Some ''maybe'') = [(''em'', ''a@b.c'')] \<and>
   [''rc'' \<mapsto> [\<lparr>opt_id = ''id-yes'', opt_name = ''Yes''\<rparr>, \<lparr>opt_id = ''id-no'', opt_name = ''No''\<rparr>]]
     ''loc'' = None \<and>
   pushDropdownOrText (Some ''we'')
     [''rc'' \<mapsto> [\<lparr>opt_id = ''id-yes'', opt_name = ''Yes''\<rparr>, \<lparr>opt_id = ''id-no'', opt_name = ''No''\<rparr>]]
     [(''em'', ''a@b.c'')] (Some ''loc'') (Some ''Remote'') = [(''em'', ''a@b.c''), (''loc'', ''Remote'')] \<and>
   pushDropdownOrText (Some ''we'')
     [''rc'' \<mapsto> [\<lparr>opt_id = ''id-yes'', opt_name = ''Yes''\<rparr>, \<lparr>opt_id = ''id-no'', opt_name = ''No''\<rparr>]]
     [(''em'', ''a@b.c'')] None (Some ''Remote'') = [(''em'', ''a@b.c'')]"
proof -
  let ?yn = "[\<lparr>opt_id = ''id-yes'', opt_name = ''Yes''\<rparr>, \<lparr>opt_id = ''id-no'', opt_name = ''No''\<rparr>]"
  let ?cache = "[''rc'' \<mapsto> ?yn]"
  have y: "optionIdFor (Some ''we'') ?cache (Some ''rc'') (Some ''yes'') = Some ''id-yes''"
    by code_simp
  have m: "optionIdFor (Some ''we'') ?cache (Some ''rc'') (Some ''maybe'') = None"
    by code_simp
  show ?thesis
    using pushDropdownOrText_cases
        [of "''rc''" "''yes''" "Some ''we''" ?cache "''id-yes''" "[(''em'', ''a@b.c'')]" ?yn
            None "Some ''Remote''"]
      pushDropdownOrText_cases
        [of "''rc''" "''maybe''" "Some ''we''" ?cache "''id-yes''" "[(''em'', ''a@b.c'')]" ?yn
            None "Some ''Remote''"]
      pushDropdownOrText_cases
        [of "''loc''" "''Remote''" "Some ''we''" ?cache "''id-yes''" "[(''em'', ''a@b.c'')]" ?yn
            None "Some ''Remote''"]
    by (simp add: y m)
qed

text \<open>
  The claim C1 as it was stated, for every field id and raw value, fails at the empty
  raw value: the field "loc" has no cached options, and nothing is appended.
\<close>

theorem pushDropdownOrText_counterexample:
  "(Map.empty :: option_cache) ''loc'' = None \<and>
   pushDropdownOrText (Some ''we'') Map.empty [] (Some ''loc'') (Some []) = [] \<and>
   pushDropdownOrText (Some ''we'') Map.empty [] (Some ''loc'') (Some []) \<noteq> [] @ [(''loc'', [])]"
  by (simp add: pushDropdownOrText_def)

lemma norm_yes: "norm ''yes'' = ''yes''"
  by code_simp

lemma find_first:
  assumes "y \<in> set xs" and "P y"
  obtains z where "find P xs = Some z" and "z \<in> set xs" and "P z"
proof -
  from assms have "find P xs \<noteq> None"
    by (auto simp: find_None_iff)
  then obtain z where z: "find P xs = Some z"
    by auto
  then have "z \<in> set xs" and "P z"
    by (auto simp: find_Some_iff)
  with z show thesis
    by (rule that)
qed

lemma optionIdFor_exact:
  assumes "fid \<noteq> []" and "raw \<noteq> []" and "cache fid = Some opts"
    and "find (\<lambda>opt. norm (opt_name opt) = norm raw) opts = Some z"
  shows "optionIdFor we cache (Some fid) (Some raw) = Some (opt_id z)"
proof -
  from assms(4) have "opts \<noteq> []"
    by auto
  with assms show ?thesis
    by (simp add: optionIdFor_def)
qed

text \<open>
  C3. For a field with cached options among which some option's normalized name is
  "yes", the resolver applied to the input "yes" returns the id of an option whose
  normalized name is "yes", the first one in the list, whatever the other options are;
  when \<open>y\<close> is the only such option, it returns the id of \<open>y\<close>.
\<close>

theorem resolve_yes:
  assumes "fid \<noteq> []" and "cache fid = Some opts"
    and "y \<in> set opts" and "norm (opt_name y) = ''yes''"
  shows "(\<exists>z. find (\<lambda>opt. norm (opt_name opt) = ''yes'') opts = Some z \<and>
              optionIdFor we cache (Some fid) (Some ''yes'') = Some (opt_id z)) \<and>
         ((\<forall>x. x \<in> set opts \<and> norm (opt_name x) = ''yes'' \<longrightarrow> x = y) \<longrightarrow>
              optionIdFor we cache (Some fid) (Some ''yes'') = Some (opt_id y))"
proof -
  obtain z where z: "find (\<lambda>opt. norm (opt_name opt) = ''yes'') opts = Some z"
    and zin: "z \<in> set opts" and zyes: "norm (opt_name z) = ''yes''"
    using find_first [of y opts "\<lambda>opt. norm (opt_name opt) = ''yes''"] assms(3,4) by blast
  have r: "optionIdFor we cache (Some fid) (Some ''yes'') = Some (opt_id z)"
    using optionIdFor_exact [of fid "''yes''" cache opts z we] assms(1,2) z
    by (simp add: norm_yes)
  show ?thesis
    using z r zin zyes by auto
qed

theorem resolve_yes_witness:
  "''cs'' \<noteq> [] \<and>
   [''cs'' \<mapsto> [\<lparr>opt_id = ''a'', opt_name = ''Yes, mostly''\<rparr>, \<lparr>opt_id = ''b'', opt_name = ''No''\<rparr>,
                \<lparr>opt_id = ''c'', opt_name = ''YES''\<rparr>]] ''cs''
     = Some [\<lparr>opt_id = ''a'', opt_name = ''Yes, mostly''\<rparr>, \<lparr>opt_id = ''b'', opt_name = ''No''\<rparr>,
             \<lparr>opt_id = ''c'', opt_name = ''YES''\<rparr>] \<and>
   \<lparr>opt_id = ''c'', opt_name = ''YES''\<rparr>
     \<in> set [\<lparr>opt_id = ''a'', opt_name = ''Yes, mostly''\<rparr>, \<lparr>opt_id = ''b'', opt_name = ''No''\<rparr>,
            \<lparr>opt_id = ''c'', opt_name = ''YES''\<rparr>] \<and>
   norm (opt_name \<lparr>opt_id = ''c'', opt_name = ''YES''\<rparr>) = ''yes'' \<and>
   filter (\<lambda>x. norm (opt_name x) = ''yes'')
     [\<lparr>opt_id = ''a'', opt_name = ''Yes, mostly''\<rparr>, \<lparr>opt_id = ''b'', opt_name = ''No''\<rparr>,
      \<lparr>opt_id = ''c'', opt_name = ''YES''\<rparr>] = [\<lparr>opt_id = ''c'', opt_name = ''YES''\<rparr>] \<and>
   optionIdFor (Some ''we'')
     [''cs'' \<mapsto> [\<lparr>opt_id = ''a'', opt_name = ''Yes, mostly''\<rparr>, \<lparr>opt_id = ''b'', opt_name = ''No''\<rparr>,
                  \<lparr>opt_id = ''c'', opt_name = ''YES''\<rparr>]]
     (Some ''cs'') (Some ''yes'') = Some ''c''"
proof -
  have n: "norm ''YES'' = ''yes''" "norm ''Yes, mostly'' = ''yes mostly''" "norm ''No'' = ''no''"
    by code_simp+
  show ?thesis
    using resolve_yes
      [of "''cs''"
          "[''cs'' \<mapsto> [\<lparr>opt_id = ''a'', opt_name = ''Yes, mostly''\<rparr>, \<lparr>opt_id = ''b'', opt_name = ''No''\<rparr>,
                        \<lparr>opt_id = ''c'', opt_name = ''YES''\<rparr>]]"
          "[\<lparr>opt_id = ''a'', opt_name = ''Yes, mostly''\<rparr>, \<lparr>opt_id = ''b'', opt_name = ''No''\<rparr>,
            \<lparr>opt_id = ''c'', opt_name = ''YES''\<rparr>]"
          "\<lparr>opt_id = ''c'', opt_name = ''YES''\<rparr>" "Some ''we''"]
    by (auto simp: n)
qed

lemma optionIdFor_norm:
  assumes "raw1 \<noteq> []" and "raw2 \<noteq> []" and "norm raw1 = norm raw2"
  shows "optionIdFor we cache fieldId (Some raw1) = optionIdFor we cache fieldId (Some raw2)"
  using assms by (simp add: optionIdFor_def)

lemma optionIdFor_falsy_raw:
  "optionIdFor we cache fieldId (Some []) = None" "optionIdFor we cache fieldId None = None"
  by (simp_all add: optionIdFor_def)

lemma lower_char_idem: "lower_char (lower_char c) = lower_char c"
proof (cases "65 \<le> (of_char c :: nat) \<and> (of_char c :: nat) \<le> 90")
  case True
  then have "(of_char (char_of (of_char c + 32 :: nat)) :: nat) = of_char c + 32"
    by simp
  with True show ?thesis
    by (simp add: lower_char_def Let_def)
next
  case False
  then show ?thesis
    by (auto simp: lower_char_def Let_def)
qed

lemma toLowerCase_idem: "toLowerCase (toLowerCase s) = toLowerCase s"
  by (simp add: toLowerCase_def lower_char_idem)

lemma norm_toLowerCase: "norm (toLowerCase s) = norm s"
  by (simp add: norm_def toLowerCase_idem)

lemma optionIdFor_toLowerCase:
  assumes "raw \<noteq> []"
  shows "optionIdFor we cache fieldId (Some (toLowerCase raw)) = optionIdFor we cache fieldId (Some raw)"
proof -
  from assms have "toLowerCase raw \<noteq> []"
    by (simp add: toLowerCase_def)
  then show ?thesis
    using assms by (rule optionIdFor_norm) (rule norm_toLowerCase)
qed

lemma norm_us_inputs: "norm ''U.S. Citizen'' = ''u s citizen''" "norm ''us citizen'' = ''us citizen''"
  by code_simp+

lemma us_citizen_tests:
  "str_includes ''us citizen permanent resident'' ''us citizen''"
  "\<not> str_includes ''u s citizen'' ''us citizen permanent resident''"
  "\<not> str_includes ''us citizen permanent resident'' ''u s citizen''"
  "\<not> str_includes ''u s citizen'' ''canadian citizen permanent resident''"
  "\<not> str_includes ''canadian citizen permanent resident'' ''u s citizen''"
  "\<not> str_includes ''u s citizen'' ''none of the above''"
  "\<not> str_includes ''none of the above'' ''u s citizen''"
  "us_regex_test ''u s citizen''"
  "str_includes ''us citizen permanent resident'' ''us''"
  "str_includes ''us citizen permanent resident'' ''citizen''"
  by code_simp+

lemma resolve_us_citizen:
  assumes "fid \<noteq> []" and "cache fid = Some [a, b, c]"
    and "norm (opt_name a) = ''us citizen permanent resident''"
    and "norm (opt_name b) = ''canadian citizen permanent resident''"
    and "norm (opt_name c) = ''none of the above''"
  shows "optionIdFor we cache (Some fid) (Some ''us citizen'') = Some (opt_id a)"
  using assms by (simp add: optionIdFor_def norm_us_inputs us_citizen_tests)

lemma resolve_u_s_citizen:
  assumes "fid \<noteq> []" and "cache fid = Some [a, b, c]"
    and "norm (opt_name a) = ''us citizen permanent resident''"
    and "norm (opt_name b) = ''canadian citizen permanent resident''"
    and "norm (opt_name c) = ''none of the above''"
  shows "optionIdFor (Some fid) cache (Some fid) (Some ''U.S. Citizen'') = Some (opt_id a)"
  using assms
  by (simp add: optionIdFor_def work_eligibility_match_def norm_us_inputs us_citizen_tests)

text \<open>
  C7, as the code has it. The resolver reads a non-empty raw input only through its
  normalized form: two non-empty raw inputs that are equal after lowercasing,
  expanding "&amp;" to "and", collapsing the runs of non-alphanumeric characters to
  single spaces and trimming resolve to the same result; so a non-empty input and its
  lowercased form resolve alike. An empty or absent raw input resolves to null.
  "U.S. Citizen" and "us citizen" are not equal after normalizing: they become
  "u s citizen" and "us citizen". For the work-eligibility field they resolve to the
  same option id, that of the first option, when its cached options are three options
  whose names normalize to "us citizen permanent resident", "canadian citizen
  permanent resident" and "none of the above" (the three the source names).
\<close>

theorem resolve_normalized:
  "(raw1 \<noteq> [] \<and> raw2 \<noteq> [] \<and> norm raw1 = norm raw2 \<longrightarrow>
      optionIdFor we cache fieldId (Some raw1) = optionIdFor we cache fieldId (Some raw2)) \<and>
   (raw1 \<noteq> [] \<longrightarrow>
      optionIdFor we cache fieldId (Some (toLowerCase raw1)) = optionIdFor we cache fieldId (Some raw1)) \<and>
   optionIdFor we cache fieldId (Some []) = None \<and>
   optionIdFor we cache fieldId None = None \<and>
   norm ''U.S. Citizen'' = ''u s citizen'' \<and>
   norm ''us citizen'' = ''us citizen'' \<and>
   (fid \<noteq> [] \<and> cache fid = Some [a, b, c] \<and>
    norm (opt_name a) = ''us citizen permanent resident'' \<and>
    norm (opt_name b) = ''canadian citizen permanent resident'' \<and>
    norm (opt_name c) = ''none of the above'' \<longrightarrow>
      optionIdFor (Some fid) cache (Some fid) (Some ''U.S. Citizen'') = Some (opt_id a) \<and>
      optionIdFor (Some fid) cache (Some fid) (Some ''us citizen'') = Some (opt_id a))"
  using optionIdFor_norm [of raw1 raw2 we cache fieldId]
    optionIdFor_toLowerCase [of raw1 we cache fieldId]
    optionIdFor_falsy_raw [of we cache fieldId]
    norm_us_inputs
    resolve_us_citizen [of fid cache a b c "Some fid"]
    resolve_u_s_citizen [of fid cache a b c]
  by blast

theorem resolve_normalized_witness:
  "''Research &amp; Development'' \<noteq> [] \<and> ''research AND development!'' \<noteq> [] \<and>
   norm ''Research &amp; Development'' = ''research and development'' \<and>
   norm ''research AND development!'' = ''research and development'' \<and>
   optionIdFor (Some ''we'')
     [''we'' \<mapsto> [\<lparr>opt_id = ''u'', opt_name = ''US citizen/permanent resident''\<rparr>,
                  \<lparr>opt_id = ''c'', opt_name = ''Canadian citizen/permanent resident''\<rparr>,
                  \<lparr>opt_id = ''n'', opt_name = ''None of the above''\<rparr>],
      ''dept'' \<mapsto> [\<lparr>opt_id = ''s'', opt_name = ''Sales''\<rparr>,
                    \<lparr>opt_id = ''rd'', opt_name = ''Research and Development''\<rparr>]]
     (Some ''dept'') (Some ''Research &amp; Development'') = Some ''rd'' \<and>
   optionIdFor (Some ''we'')
     [''we'' \<mapsto> [\<lparr>opt_id = ''u'', opt_name = ''US citizen/permanent resident''\<rparr>,
                  \<lparr>opt_id = ''c'', opt_name = ''Canadian citizen/permanent resident''\<rparr>,
                  \<lparr>opt_id = ''n'', opt_name = ''None of the above''\<rparr>],
      ''dept'' \<mapsto> [\<lparr>opt_id = ''s'', opt_name = ''Sales''\<rparr>,
                    \<lparr>opt_id = ''rd'', opt_name = ''Research and Development''\<rparr>]]
     (Some ''dept'') (Some ''research AND development!'') = Some ''rd'' \<and>
   toLowerCase ''Research &amp; Development'' = ''research &amp; development'' \<and>
   optionIdFor (Some ''we'')
     [''we'' \<mapsto> [\<lparr>opt_id = ''u'', opt_name = ''US citizen/permanent resident''\<rparr>,
                  \<lparr>opt_id = ''c'', opt_name = ''Canadian citizen/permanent resident''\<rparr>,
                  \<lparr>opt_id = ''n'', opt_name = ''None of the above''\<rparr>],
      ''dept'' \<mapsto> [\<lparr>opt_id = ''s'', opt_name = ''Sales''\<rparr>,
                    \<lparr>opt_id = ''rd'', opt_name = ''Research and Development''\<rparr>]]
     (Some ''dept'') (Some ''research &amp; development'') = Some ''rd'' \<and>
   norm ''US citizen/permanent resident'' = ''us citizen permanent resident'' \<and>
   norm ''Canadian citizen/permanent resident'' = ''canadian citizen permanent resident'' \<and>
   norm ''None of the above'' = ''none of the above'' \<and>
   optionIdFor (Some ''we'')
     [''we'' \<mapsto> [\<lparr>opt_id = ''u'', opt_name = ''US citizen/permanent resident''\<rparr>,
                  \<lparr>opt_id = ''c'', opt_name = ''Canadian citizen/permanent resident''\<rparr>,
                  \<lparr>opt_id = ''n'', opt_name = ''None of the above''\<rparr>],
      ''dept'' \<mapsto> [\<lparr>opt_id = ''s'', opt_name = ''Sales''\<rparr>,
                    \<lparr>opt_id = ''rd'', opt_name = ''Research and Development''\<rparr>]]
     (Some ''we'') (Some ''U.S. Citizen'') = Some ''u'' \<and>
   optionIdFor (Some ''we'')
     [''we'' \<mapsto> [\<lparr>opt_id = ''u'', opt_name = ''US citizen/permanent resident''\<rparr>,
                  \<lparr>opt_id = ''c'', opt_name = ''Canadian citizen/permanent resident''\<rparr>,
                  \<lparr>opt_id = ''n'', opt_name = ''None of the above''\<rparr>],
      ''dept'' \<mapsto> [\<lparr>opt_id = ''s'', opt_name = ''Sales''\<rparr>,
                    \<lparr>opt_id = ''rd'', opt_name = ''Research and Development''\<rparr>]]
     (Some ''we'') (Some ''us citizen'') = Some ''u''"
proof -
  let ?cache = "[''we'' \<mapsto> [\<lparr>opt_id = ''u'', opt_name = ''US citizen/permanent resident''\<rparr>,
                  \<lparr>opt_id = ''c'', opt_name = ''Canadian citizen/permanent resident''\<rparr>,
                  \<lparr>opt_id = ''n'', opt_name = ''None of the above''\<rparr>],
      ''dept'' \<mapsto> [\<lparr>opt_id = ''s'', opt_name = ''Sales''\<rparr>,
                    \<lparr>opt_id = ''rd'', opt_name = ''Research and Development''\<rparr>]]"
  have n: "norm ''Research &amp; Development'' = ''research and development''"
    "norm ''research AND development!'' = ''research and development''"
    "toLowerCase ''Research &amp; Development'' = ''research &amp; development''"
    "norm ''US citizen/permanent resident'' = ''us citizen permanent resident''"
    "norm ''Canadian citizen/permanent resident'' = ''canadian citizen permanent resident''"
    "norm ''None of the above'' = ''none of the above''"
    by code_simp+
  have r: "optionIdFor (Some ''we'') ?cache (Some ''dept'') (Some ''Research &amp; Development'')
             = Some ''rd''"
    by code_simp
  show ?thesis
    using resolve_normalized
      [where ?raw1.0 = "''Research &amp; Development''" and ?raw2.0 = "''research AND development!''"
         and we = "Some ''we''" and cache = ?cache and fieldId = "Some ''dept''" and fid = "''we''"
         and a = "\<lparr>opt_id = ''u'', opt_name = ''US citizen/permanent resident''\<rparr>"
         and b = "\<lparr>opt_id = ''c'', opt_name = ''Canadian citizen/permanent resident''\<rparr>"
         and c = "\<lparr>opt_id = ''n'', opt_name = ''None of the above''\<rparr>"]
    by (simp add: n r)
qed

text \<open>
  The claim C7 as it was stated fails twice. With the options "Australian citizen" and
  "US citizen" cached for the work-eligibility field, "U.S. Citizen" resolves to the
  first (the special mapping looks for "us" inside a name) and "us citizen" to the
  second. And the raw inputs "-" and "" are equal after normalizing, yet with these
  options "-" resolves to an option (the empty string is contained in the first name)
  and "" to null.
\<close>

theorem resolve_normalized_counterexample:
  "norm ''U.S. Citizen'' = ''u s citizen'' \<and> norm ''us citizen'' = ''us citizen'' \<and>
   optionIdFor (Some ''we'')
     [''we'' \<mapsto> [\<lparr>opt_id = ''a'', opt_name = ''Australian citizen''\<rparr>,
                  \<lparr>opt_id = ''b'', opt_name = ''US citizen''\<rparr>]]
     (Some ''we'') (Some ''U.S. Citizen'') = Some ''a'' \<and>
   optionIdFor (Some ''we'')
     [''we'' \<mapsto> [\<lparr>opt_id = ''a'', opt_name = ''Australian citizen''\<rparr>,
                  \<lparr>opt_id = ''b'', opt_name = ''US citizen''\<rparr>]]
     (Some ''we'') (Some ''us citizen'') = Some ''b'' \<and>
   norm ''-'' = norm [] \<and>
   optionIdFor (Some ''we'')
     [''we'' \<mapsto> [\<lparr>opt_id = ''a'', opt_name = ''Australian citizen''\<rparr>,
                  \<lparr>opt_id = ''b'', opt_name = ''US citizen''\<rparr>]]
     (Some ''we'') (Some ''-'') = Some ''a'' \<and>
   optionIdFor (Some ''we'')
     [''we'' \<mapsto> [\<lparr>opt_id = ''a'', opt_name = ''Australian citizen''\<rparr>,
                  \<lparr>opt_id = ''b'', opt_name = ''US citizen''\<rparr>]]
     (Some ''we'') (Some []) = None"
  by code_simp

section \<open>Properties of the cache refresh\<close>

lemma cache_field_copy:
  "map (\<lambda>opt. \<lparr>opt_id = opt_id opt, opt_name = opt_name opt\<rparr>) os = (os :: field_option list)"
  by (induction os) simp_all

lemma cache_field_entry:
  assumes "cache_field f m fid = Some os"
  shows "m fid = Some os \<or> (field_id f = fid \<and> type_options f = Some os)"
  using assms
  by (cases "type_options f") (auto simp: cache_field_def cache_field_copy split: if_splits)

lemma store_fields_entry:
  assumes "(case store_fields es m of Inl thrown \<Rightarrow> thrown | Inr done \<Rightarrow> done) fid = Some os"
  shows "m fid = Some os \<or>
         (\<exists>f. Field f \<in> set es \<and> field_id f = fid \<and> type_options f = Some os)"
  using assms
proof (induction es m rule: store_fields.induct)
  case (1 cache)
  then show ?case by simp
next
  case (2 es cache)
  then show ?case by simp
next
  case (3 f es cache)
  from "3.prems" have "(case store_fields es (cache_field f cache) of
      Inl thrown \<Rightarrow> thrown | Inr done \<Rightarrow> done) fid = Some os"
    by simp
  then have "cache_field f cache fid = Some os \<or>
      (\<exists>g. Field g \<in> set es \<and> field_id g = fid \<and> type_options g = Some os)"
    by (rule "3.IH")
  then show ?case
    using cache_field_entry [of f cache fid os] by auto
qed

lemma warmDropdowns_calls: "snd (warmDropdowns ff old) = [ListFields]"
  by (simp add: warmDropdowns_def Let_def)

lemma warmDropdowns_cleared: "warmDropdowns ff old = warmDropdowns ff Map.empty"
  by (simp add: warmDropdowns_def Let_def)

lemma warmDropdowns_entry:
  assumes "fst (warmDropdowns ff old) fid = Some os"
  shows "\<exists>ok st flds. ff = Resolves ok st (JVal flds) \<and>
           (\<exists>f. Field f \<in> set flds \<and> field_id f = fid \<and> type_options f = Some os)"
proof (cases ff)
  case (Rejects err)
  with assms show ?thesis
    by (simp add: warmDropdowns_def warm_try_def Let_def)
next
  case (Resolves ok st b)
  show ?thesis
  proof (cases b)
    case (NotJson err)
    with Resolves assms show ?thesis
      by (simp add: warmDropdowns_def warm_try_def Let_def)
  next
    case (JFalsy j)
    with Resolves assms show ?thesis
      by (simp add: warmDropdowns_def warm_try_def Let_def)
  next
    case (JVal flds)
    with Resolves assms have "(case store_fields flds Map.empty of
        Inl thrown \<Rightarrow> thrown | Inr done \<Rightarrow> done) fid = Some os"
      by (simp add: warmDropdowns_def warm_try_def Let_def)
    then have "\<exists>f. Field f \<in> set flds \<and> field_id f = fid \<and> type_options f = Some os"
      using store_fields_entry [of flds Map.empty fid os] by simp
    with Resolves JVal show ?thesis
      by simp
  qed
qed

lemma warmDropdowns_failed:
  assumes "ff = Rejects err \<or> ff = Resolves ok st (NotJson err)"
  shows "warmDropdowns ff old = (Map.empty, [ListFields])"
  using assms by (auto simp: warmDropdowns_def warm_try_def Let_def)

lemma warmDropdowns_status_unread:
  "warmDropdowns (Resolves ok st b) old = warmDropdowns (Resolves ok' st' b) old"
  by (cases b) (simp_all add: warmDropdowns_def warm_try_def Let_def)

text \<open>
  What holds of every refresh. It clears the option cache first: its result does not
  depend on the cache before it. It makes one remote fetch. After it the cache holds
  an entry for a field only if that fetch resolved to a JSON answer, of whatever
  status, in which the field exposed an option list, and the entry is that list. If
  the fetch rejects, or its body is not JSON, the exception is caught: the refresh
  returns, with the cache empty.
\<close>

lemma warmDropdowns_refresh:
  "warmDropdowns ff old = warmDropdowns ff Map.empty \<and>
   snd (warmDropdowns ff old) = [ListFields] \<and>
   (fst (warmDropdowns ff old) fid = Some os \<longrightarrow>
      (\<exists>ok st flds. ff = Resolves ok st (JVal flds) \<and>
         (\<exists>f. Field f \<in> set flds \<and> field_id f = fid \<and> type_options f = Some os))) \<and>
   (ff = Rejects err \<or> ff = Resolves ok' st' (NotJson err) \<longrightarrow>
      warmDropdowns ff old = (Map.empty, [ListFields]))"
proof (intro conjI impI)
  show "warmDropdowns ff old = warmDropdowns ff Map.empty"
    by (rule warmDropdowns_cleared)
  show "snd (warmDropdowns ff old) = [ListFields]"
    by (rule warmDropdowns_calls)
next
  assume "fst (warmDropdowns ff old) fid = Some os"
  then show "\<exists>ok st flds. ff = Resolves ok st (JVal flds) \<and>
         (\<exists>f. Field f \<in> set flds \<and> field_id f = fid \<and> type_options f = Some os)"
    by (rule warmDropdowns_entry)
next
  assume "ff = Rejects err \<or> ff = Resolves ok' st' (NotJson err)"
  then show "warmDropdowns ff old = (Map.empty, [ListFields])"
    by (rule warmDropdowns_failed)
qed

text \<open>
  C8 does not hold of the code. \<open>warmDropdowns\<close> never reads \<open>r.ok\<close>: when the
  list-fields fetch fails with the status 500 and the body of the answer is JSON with
  a \<open>fields\<close> array, the refresh stores the options of its fields as it does for a
  successful fetch. After the refresh the cache holds an entry for the field "f1",
  though the fetch did not succeed, and the cache is not left empty.
\<close>

theorem warmDropdowns_error_answer:
  "fst (warmDropdowns
          (Resolves False 500 (JVal
             [Field \<lparr>field_id = ''f1'',
                     type_options = Some [\<lparr>opt_id = ''y'', opt_name = ''Yes''\<rparr>,
                                          \<lparr>opt_id = ''n'', opt_name = ''No''\<rparr>]\<rparr>]))
          Map.empty) ''f1''
     = Some [\<lparr>opt_id = ''y'', opt_name = ''Yes''\<rparr>, \<lparr>opt_id = ''n'', opt_name = ''No''\<rparr>] \<and>
   warmDropdowns
     (Resolves False 500 (JVal
        [Field \<lparr>field_id = ''f1'',
                type_options = Some [\<lparr>opt_id = ''y'', opt_name = ''Yes''\<rparr>,
                                     \<lparr>opt_id = ''n'', opt_name = ''No''\<rparr>]\<rparr>]))
     Map.empty
   = warmDropdowns
     (Resolves True 200 (JVal
        [Field \<lparr>field_id = ''f1'',
                type_options = Some [\<lparr>opt_id = ''y'', opt_name = ''Yes''\<rparr>,
                                     \<lparr>opt_id = ''n'', opt_name = ''No''\<rparr>]\<rparr>]))
     Map.empty"
  by (simp add: warmDropdowns_def warm_try_def cache_field_def Let_def)

section \<open>Properties of the creation endpoint\<close>

lemma apply_no_file:
  assumes "req_file req = None"
  shows "apply_handler c r cache req =
           ((200, ValidationError ''videoFile''), [ListFields],
            fst (warmDropdowns (list_fields r) cache))"
  using assms
  by (simp add: apply_handler_def Let_def case_prod_beta warmDropdowns_calls)

lemma apply_empty_file:
  assumes "req_file req = Some f" and "buffer f = []"
  shows "apply_handler c r cache req =
           ((200, ValidationError ''videoFile''), [ListFields],
            fst (warmDropdowns (list_fields r) cache))"
  using assms
  by (simp add: apply_handler_def Let_def case_prod_beta warmDropdowns_calls)

text \<open>
  C2, as the code has it. When the creation endpoint receives a request with no video
  file attached (or with an empty one), the response is a validation error naming the
  field "videoFile"; while handling the request the handler makes one call to the
  remote API, the list-fields fetch of the cache refresh that precedes the check, and
  no other: no task is created and nothing is uploaded.
\<close>

theorem apply_without_video:
  "req_file req = None \<or> (\<exists>f. req_file req = Some f \<and> buffer f = []) \<longrightarrow>
     fst (apply_handler c r cache req) = (200, ValidationError ''videoFile'') \<and>
     fst (snd (apply_handler c r cache req)) = [ListFields]"
  using apply_no_file [of req c r cache] apply_empty_file [of req _ c r cache]
  by auto

theorem apply_without_video_witness:
  "req_file \<lparr>req_body = empty_payload, req_file = None\<rparr> = None \<and>
   fst (apply_handler default_cf remote_ok Map.empty \<lparr>req_body = empty_payload, req_file = None\<rparr>)
     = (200, ValidationError ''videoFile'') \<and>
   fst (snd (apply_handler default_cf remote_ok Map.empty
               \<lparr>req_body = empty_payload, req_file = None\<rparr>)) = [ListFields]"
  using apply_without_video
    [of "\<lparr>req_body = empty_payload, req_file = None\<rparr>" default_cf remote_ok Map.empty]
  by simp

text \<open>
  The claim C2 as it was stated fails: handling a request with no file, the handler
  has already refreshed the option cache, a call to the remote API.
\<close>

theorem apply_without_video_counterexample:
  "fst (apply_handler default_cf remote_ok Map.empty \<lparr>req_body = empty_payload, req_file = None\<rparr>)
     = (200, ValidationError ''videoFile'') \<and>
   fst (snd (apply_handler default_cf remote_ok Map.empty
               \<lparr>req_body = empty_payload, req_file = None\<rparr>)) \<noteq> []"
  by (simp add: apply_no_file)

lemma apply_created:
  assumes "req_file req = Some f" and "buffer f \<noteq> []"
    and "create_task r = Resolves True st (JVal cr)"
    and "created_id cr = Some tid" and "tid \<noteq> []"
  shows "fst (apply_handler c r cache req) =
           (200, ApplyOk (Some tid) (or_null (created_custom_id cr)) (created_url cr)
                   (fst (upload_step c r tid f)))"
  using assms by (simp add: apply_handler_def Let_def case_prod_beta)

lemma upload_step_failed:
  assumes "upload_attachment r = Resolves False ust b"
  shows "fst (upload_step c r tid f) =
           UploadFailed ust (case b of NotJson err \<Rightarrow> ''{}'' | JFalsy j \<Rightarrow> j
                                     | JVal u \<Rightarrow> upload_json u)"
  using assms by (cases b) (simp_all add: upload_step_def Let_def)

lemma upload_step_rejected:
  assumes "upload_attachment r = Rejects err"
  shows "fst (upload_step c r tid f) = UploadException err"
  using assms by (simp add: upload_step_def Let_def)

text \<open>
  C5. In the creation flow, for a request with a video file, whenever the remote task
  creation succeeds (an \<open>ok\<close> answer whose JSON body carries the task id), the
  endpoint answers with status 200 and the body \<open>status: 'ok'\<close> with that task id,
  whatever the outcome of the attachment upload. If the upload answers with a
  non-success status, the response embeds that status and the answer's body; if the
  upload throws, it embeds the exception text.
\<close>

theorem apply_upload_failure:
  assumes "req_file req = Some f" and "buffer f \<noteq> []"
    and "create_task r = Resolves True st (JVal cr)"
    and "created_id cr = Some tid" and "tid \<noteq> []"
  shows
  "(\<exists>msg. fst (apply_handler c r cache req) =
            (200, ApplyOk (Some tid) (or_null (created_custom_id cr)) (created_url cr) msg)) \<and>
   (upload_attachment r = Resolves False ust b \<longrightarrow>
      fst (apply_handler c r cache req) =
        (200, ApplyOk (Some tid) (or_null (created_custom_id cr)) (created_url cr)
                (UploadFailed ust (case b of NotJson e \<Rightarrow> ''{}'' | JFalsy j \<Rightarrow> j
                                           | JVal u \<Rightarrow> upload_json u)))) \<and>
   (upload_attachment r = Rejects err \<longrightarrow>
      fst (apply_handler c r cache req) =
        (200, ApplyOk (Some tid) (or_null (created_custom_id cr)) (created_url cr)
                (UploadException err)))"
  using apply_created [OF assms, of c cache] upload_step_failed [of r ust b c tid f]
    upload_step_rejected [of r err c tid f]
  by simp

theorem apply_upload_failure_witness:
  "fst (apply_handler default_cf
          (remote_ok\<lparr>upload_attachment :=
             Resolves False 500 (JVal \<lparr>upload_json = ''{\"err\":\"boom\"}'', att_url = None\<rparr>)\<rparr>)
          Map.empty
          \<lparr>req_body = empty_payload,
           req_file = Some \<lparr>originalname = ''me.mp4'', mimetype = ''video/mp4'', buffer = ''xyz''\<rparr>\<rparr>)
     = (200, ApplyOk (Some ''t1'') None None (UploadFailed 500 ''{\"err\":\"boom\"}'')) \<and>
   fst (apply_handler default_cf
          (remote_ok\<lparr>upload_attachment := Rejects ''TypeError: fetch failed''\<rparr>)
          Map.empty
          \<lparr>req_body = empty_payload,
           req_file = Some \<lparr>originalname = ''me.mp4'', mimetype = ''video/mp4'', buffer = ''xyz''\<rparr>\<rparr>)
     = (200, ApplyOk (Some ''t1'') None None (UploadException ''TypeError: fetch failed''))"
  using apply_upload_failure
      [where req = "\<lparr>req_body = empty_payload,
            req_file = Some \<lparr>originalname = ''me.mp4'', mimetype = ''video/mp4'', buffer = ''xyz''\<rparr>\<rparr>"
         and f = "\<lparr>originalname = ''me.mp4'', mimetype = ''video/mp4'', buffer = ''xyz''\<rparr>"
         and r = "remote_ok\<lparr>upload_attachment :=
             Resolves False 500 (JVal \<lparr>upload_json = ''{\"err\":\"boom\"}'', att_url = None\<rparr>)\<rparr>"
         and st = 200
         and cr = "\<lparr>created_json = ''{\"id\":\"t1\"}'', created_id = Some ''t1'',
            created_custom_id = None, created_url = None\<rparr>"
         and tid = "''t1''" and ust = 500
         and b = "JVal \<lparr>upload_json = ''{\"err\":\"boom\"}'', att_url = None\<rparr>"
         and err = "''x''" and c = default_cf and cache = Map.empty]
    apply_upload_failure
      [where req = "\<lparr>req_body = empty_payload,
            req_file = Some \<lparr>originalname = ''me.mp4'', mimetype = ''video/mp4'', buffer = ''xyz''\<rparr>\<rparr>"
         and f = "\<lparr>originalname = ''me.mp4'', mimetype = ''video/mp4'', buffer = ''xyz''\<rparr>"
         and r = "remote_ok\<lparr>upload_attachment := Rejects ''TypeError: fetch failed''\<rparr>"
         and st = 200
         and cr = "\<lparr>created_json = ''{\"id\":\"t1\"}'', created_id = Some ''t1'',
            created_custom_id = None, created_url = None\<rparr>"
         and tid = "''t1''" and ust = 500
         and b = "JVal \<lparr>upload_json = ''{\"err\":\"boom\"}'', att_url = None\<rparr>"
         and err = "''TypeError: fetch failed''" and c = default_cf and cache = Map.empty]
  by (simp add: remote_ok_def or_null_def)

section \<open>Properties of the guarantee-sign endpoint\<close>

lemma rmdir_fresh:
  assumes "\<forall>p\<in>fs. \<not> prefix d p" and "x \<noteq> []" and "y \<noteq> []"
  shows "rmdir d (unlink (d @ y) (unlink (d @ x) (insert (d @ y) (insert (d @ x) (insert d fs))))) = fs"
proof -
  have d: "d \<notin> fs" and i: "d @ x \<notin> fs" and p: "d @ y \<notin> fs"
    using assms(1) by auto
  have u: "unlink (d @ y) (unlink (d @ x) (insert (d @ y) (insert (d @ x) (insert d fs))))
             = insert d fs"
    using assms(2,3) i p by (auto simp: unlink_def)
  have "\<not> (\<exists>p\<in>insert d fs. strict_prefix (d @ ''/'') p \<or> p = d @ ''/'')"
  proof
    assume "\<exists>p\<in>insert d fs. strict_prefix (d @ ''/'') p \<or> p = d @ ''/''"
    then obtain p where p: "p \<in> insert d fs"
      and q: "strict_prefix (d @ ''/'') p \<or> p = d @ ''/''"
      by blast
    from q have "prefix d p" and "p \<noteq> d"
      by (auto simp: strict_prefix_def prefix_def)
    with p assms(1) show False
      by auto
  qed
  then have "rmdir d (insert d fs) = insert d fs - {d}"
    unfolding rmdir_def by (simp only: if_False)
  with u d show ?thesis
    by simp
qed

text \<open>
  The path that cleans up: when the rendering finishes and the upload gets an answer,
  of whatever status, the handler answers 200 and the file system is as before the
  request (the directory from \<open>mkdtempSync\<close> is new: no existing path starts with it).
\<close>

lemma guarantee_sign_cleans_after_answer:
  assumes "sign_taskId req = Some tid" and "tid \<noteq> []"
    and "split_second (if truthy (signaturePng req) then the (signaturePng req) else []) = Some b64"
    and "b64 \<noteq> []"
    and "mkdtemp e = Inr d" and "\<forall>p\<in>fs. \<not> prefix d p"
    and "render e = RenderFinished" and "upload_pdf e = Resolves ok st b"
  shows "fst (guarantee_sign e fs req) = (200, SignOk (json_or_empty b))"
    and "snd (snd (guarantee_sign e fs req)) = fs"
  using assms rmdir_fresh [of fs d "''/sig.png''" "''/'' @ pdf_file_name (fullName req) (date_now e)"]
  by (simp_all add: guarantee_sign_def resolveTaskId_def Let_def path_join_def)

text \<open>
  The paths that do not: when the upload throws, or the rendering fails, the handler
  answers 500 from its \<open>catch\<close>, and the temporary directory is still there.
\<close>

lemma guarantee_sign_leaks_on_exception:
  assumes "sign_taskId req = Some tid" and "tid \<noteq> []"
    and "split_second (if truthy (signaturePng req) then the (signaturePng req) else []) = Some b64"
    and "b64 \<noteq> []"
    and "mkdtemp e = Inr d"
    and "(render e = RenderFinished \<and> upload_pdf e = Rejects err) \<or>
         render e = RenderRejected err sig_written pdf_created"
  shows "fst (guarantee_sign e fs req) = (500, SignServerError)"
    and "d \<in> snd (snd (guarantee_sign e fs req))"
  using assms
  by (auto simp: guarantee_sign_def resolveTaskId_def Let_def)

text \<open>
  C4 does not hold of the code. A request for the task "t1" with a well-formed
  signature, on a server where the PDF is rendered and the upload then throws (the
  remote cannot be reached): the handler answers 500, and the temporary directory,
  the signature image and the PDF are all left in the file system.
\<close>

theorem guarantee_sign_upload_throws:
  "guarantee_sign
     \<lparr> get_task = Rejects ''unused'',
       mkdtemp = Inr ''/tmp/dtca-Ab12Cd'',
       date_now = ''1700000000000'',
       render = RenderFinished,
       upload_pdf = Rejects ''TypeError: fetch failed'',
       CF_GUARANTEE_SIGNED = None \<rparr>
     {''/tmp''}
     \<lparr> sign_taskId = Some ''t1'', sign_customTaskId = None, fullName = Some ''Ann'',
       signedAt = None, termsText = Some ''terms'',
       signaturePng = Some ''data:image/png;base64,iVBORw0KGgo='' \<rparr>
   = ((500, SignServerError),
      [UploadAttachment ''t1'' ''DCA-Job-Guarantee-Ann-1700000000000.pdf''],
      {''/tmp'', ''/tmp/dtca-Ab12Cd'', ''/tmp/dtca-Ab12Cd/sig.png'',
       ''/tmp/dtca-Ab12Cd/DCA-Job-Guarantee-Ann-1700000000000.pdf''})"
proof -
  have s: "split_second ''data:image/png;base64,iVBORw0KGgo='' = Some ''iVBORw0KGgo=''"
    by code_simp
  have n: "pdf_file_name (Some ''Ann'') ''1700000000000'' = ''DCA-Job-Guarantee-Ann-1700000000000.pdf''"
    by code_simp
  show ?thesis
    by (auto simp: guarantee_sign_def resolveTaskId_def s n path_join_def Let_def)
qed

end
